theory Spec2Isabelle
  imports Complex_Main
begin

section \<open>Motor control (web/move.py)\<close>

text \<open>
  Python numbers are modelled by exact reals: the integer speeds of the callers embed
  into them, and the quotients and products of the source (\<open>x / 100\<close>, \<open>speed * radius\<close>)
  are taken without rounding. Exceptions of the source are values of \<open>exn\<close>.
\<close>

datatype exn =
    AttributeError
  | ZeroDivisionError
  | ValueError
  | RuntimeError
  | SensorReadError
  | CallbackError

subsection \<open>Module constants\<close>

definition M1_Direction :: int where
  "M1_Direction = 1"

definition M2_Direction :: int where
  "M2_Direction = 1"

definition TL_LEFT_Offset :: real where
  "TL_LEFT_Offset = 10"

definition TL_RIGHT_Offset :: real where
  "TL_RIGHT_Offset = 0"

definition FREQ :: nat where
  "FREQ = 50"

subsection \<open>The driver state\<close>

text \<open>
  The globals \<open>pwm_motor\<close>, \<open>motor1\<close> .. \<open>motor4\<close> are \<open>None\<close> until \<open>setup()\<close> has run;
  afterwards they hold the PWM frequency and one throttle per motor. The module state
  is therefore an optional record: \<open>None\<close> is the state before \<open>setup()\<close>, where every
  attribute access of the source raises \<open>AttributeError\<close>.
\<close>

record motors =
  frequency :: nat
  motor1 :: real
  motor2 :: real
  motor3 :: real
  motor4 :: real

type_synonym hw = "motors option"

subsection \<open>map\<close>

text \<open>
  \<open>map(x, in_min, in_max, out_min, out_max)\<close>: the division raises
  \<open>ZeroDivisionError\<close> on an empty input range.
\<close>

definition map_linear :: "real \<Rightarrow> real \<Rightarrow> real \<Rightarrow> real \<Rightarrow> real \<Rightarrow> exn + real" where
  "map_linear x in_min in_max out_min out_max =
     (if in_max - in_min = 0 then Inl ZeroDivisionError
      else Inr ((x - in_min) / (in_max - in_min) * (out_max - out_min) + out_min))"

subsection \<open>motorStop\<close>

definition motorStop :: "hw \<Rightarrow> exn + hw" where
  "motorStop st =
     (case st of
        None \<Rightarrow> Inl AttributeError
      | Some h \<Rightarrow> Inr (Some (h\<lparr>motor1 := 0, motor2 := 0, motor3 := 0, motor4 := 0\<rparr>)))"

subsection \<open>Motor\<close>

text \<open>The \<open>if channel == 1 ... elif channel == 4\<close> chain; any other channel writes nothing.\<close>

definition set_throttle :: "int \<Rightarrow> real \<Rightarrow> motors \<Rightarrow> motors" where
  "set_throttle channel speed h =
     (if channel = 1 then h\<lparr>motor1 := speed\<rparr>
      else if channel = 2 then h\<lparr>motor2 := speed\<rparr>
      else if channel = 3 then h\<lparr>motor3 := speed\<rparr>
      else if channel = 4 then h\<lparr>motor4 := speed\<rparr>
      else h)"

text \<open>The clamp at the head of \<open>Motor\<close>.\<close>

definition clamp_speed :: "real \<Rightarrow> real" where
  "clamp_speed motor_speed =
     (if motor_speed > 100 then 100
      else if motor_speed < 0 then 0
      else motor_speed)"

definition Motor :: "int \<Rightarrow> int \<Rightarrow> real \<Rightarrow> hw \<Rightarrow> exn + hw" where
  "Motor channel direction motor_speed st =
     (case map_linear (clamp_speed motor_speed) 0 100 0 1 of
        Inl e \<Rightarrow> Inl e
      | Inr speed \<Rightarrow>
          (case st of
             None \<Rightarrow> Inl AttributeError
           | Some h \<Rightarrow>
               Inr (Some (set_throttle channel
                            (if direction = - 1 then - speed else speed)
                            (h\<lparr>frequency := FREQ\<rparr>)))))"

text \<open>Two statements in sequence: the second runs only if the first did not raise.\<close>

definition and_then :: "exn + hw \<Rightarrow> (hw \<Rightarrow> exn + hw) \<Rightarrow> exn + hw" where
  "and_then r f = (case r of Inl e \<Rightarrow> Inl e | Inr st \<Rightarrow> f st)"

subsection \<open>move\<close>

definition move :: "real \<Rightarrow> int \<Rightarrow> string \<Rightarrow> real \<Rightarrow> hw \<Rightarrow> exn + hw" where
  "move speed direction turn radius st =
     (if speed = 0 then motorStop st
      else if direction = 1 then
        (if turn = ''left'' then
           and_then (Motor 1 (- M1_Direction) speed st) (Motor 2 M2_Direction speed)
         else if turn = ''right'' then
           and_then (Motor 1 M1_Direction speed st) (Motor 2 (- M2_Direction) speed)
         else
           and_then (Motor 1 M1_Direction speed st) (Motor 2 M2_Direction speed))
      else if direction = - 1 then
        and_then (Motor 1 (- M1_Direction) speed st) (Motor 2 (- M2_Direction) speed)
      else Inr st)"

subsection \<open>trackingMove\<close>

definition trackingMove :: "real \<Rightarrow> int \<Rightarrow> string \<Rightarrow> real \<Rightarrow> hw \<Rightarrow> exn + hw" where
  "trackingMove speed direction turn radius st =
     (if speed = 0 then motorStop st
      else if direction = 1 then
        (if turn = ''left'' then
           and_then (Motor 1 (- M1_Direction) (speed + TL_LEFT_Offset) st)
                    (Motor 2 0 (speed + TL_RIGHT_Offset))
         else if turn = ''right'' then
           and_then (Motor 1 0 speed st)
                    (Motor 2 (- M2_Direction) (speed + TL_RIGHT_Offset))
         else
           and_then (Motor 1 M1_Direction (speed + TL_LEFT_Offset) st)
                    (Motor 2 M2_Direction (speed + TL_RIGHT_Offset)))
      else if direction = - 1 then
        and_then (Motor 1 (- M1_Direction) (speed + TL_LEFT_Offset) st)
                 (Motor 2 (- M2_Direction) (speed + TL_RIGHT_Offset))
      else Inr st)"

subsection \<open>video_Tracking_Move\<close>

definition video_Tracking_Move :: "real \<Rightarrow> int \<Rightarrow> string \<Rightarrow> real \<Rightarrow> hw \<Rightarrow> exn + hw" where
  "video_Tracking_Move speed direction turn radius st =
     (if speed = 0 then motorStop st
      else if direction = 1 then
        (if turn = ''left'' then
           and_then (Motor 1 (- M1_Direction) speed st)
                    (Motor 2 M2_Direction (speed * radius))
         else if turn = ''right'' then
           and_then (Motor 1 M1_Direction (speed * radius) st)
                    (Motor 2 (- M2_Direction) speed)
         else
           and_then (Motor 1 M1_Direction speed st) (Motor 2 M2_Direction speed))
      else if direction = - 1 then
        and_then (Motor 1 (- M1_Direction) speed st) (Motor 2 (- M2_Direction) speed)
      else Inr st)"

section \<open>Ultrasonic monitor (web/ultrasonic_monitor.py)\<close>

subsection \<open>The monitor object\<close>

text \<open>
  The payload handed to the callback: the dictionary with the keys \<open>'type'\<close>,
  \<open>'distance'\<close> and \<open>'timestamp'\<close>.
\<close>

record sensor_data =
  dtype :: string
  distance :: real
  timestamp :: real

text \<open>
  The fields of \<open>UltrasonicMonitor\<close>. A callback is a function of the payload that
  either returns (\<open>None\<close>) or raises (\<open>Some e\<close>). \<open>stop_event\<close> is the
  \<open>threading.Event\<close>; \<open>threads_started\<close> counts the successful calls of the inherited
  \<open>Thread.start()\<close>, which Python allows once per thread object.
\<close>

record monitor =
  daemon :: bool
  running :: bool
  continuous :: bool
  update_rate :: real
  last_distance :: real
  callback :: "(sensor_data \<Rightarrow> exn option) option"
  stop_event :: bool
  threads_started :: nat

definition UltrasonicMonitor_init :: monitor where
  "UltrasonicMonitor_init =
     \<lparr>daemon = True, running = False, continuous = False, update_rate = 10,
      last_distance = 0, callback = None, stop_event = False, threads_started = 0\<rparr>"

text \<open>
  What the monitor does to the outside world, in order: a printed line (its prefix and
  the exception formatted into it), a \<open>time.sleep\<close>, a call of the callback.
\<close>

datatype event =
    Print string exn
  | Sleep real
  | Callback sensor_data

text \<open>
  \<open>Thread.start()\<close>: raises \<open>RuntimeError\<close> when the thread was started before. A method
  that raises after it has assigned to \<open>self\<close> leaves those assignments in place, so the
  methods below return the exception (if any) together with the object.
\<close>

definition Thread_start :: "monitor \<Rightarrow> exn option \<times> monitor" where
  "Thread_start m =
     (if 0 < threads_started m then (Some RuntimeError, m)
      else (None, m\<lparr>threads_started := Suc (threads_started m)\<rparr>))"

definition set_callback :: "(sensor_data \<Rightarrow> exn option) option \<Rightarrow> monitor \<Rightarrow> monitor" where
  "set_callback cb m = m\<lparr>callback := cb\<rparr>"

definition start_continuous :: "real \<Rightarrow> monitor \<Rightarrow> exn option \<times> monitor" where
  "start_continuous rate m =
     (let m1 = m\<lparr>update_rate := rate, continuous := True\<rparr>
      in if \<not> running m1 then Thread_start (m1\<lparr>running := True\<rparr>)
         else (None, m1))"

definition stop_continuous :: "monitor \<Rightarrow> monitor" where
  "stop_continuous m = m\<lparr>continuous := False\<rparr>"

definition stop :: "monitor \<Rightarrow> monitor" where
  "stop m = m\<lparr>running := False, continuous := False, stop_event := True\<rparr>"

subsection \<open>get_single_reading\<close>

text \<open>
  The outcome of \<open>ultra.checkdist()\<close> is an input of the model: \<open>Inr d\<close> when the sensor
  returned the distance \<open>d\<close>, \<open>Inl e\<close> when the read raised the exception \<open>e\<close>. The method
  returns its value, the object and what it printed.
\<close>

definition get_single_reading :: "exn + real \<Rightarrow> monitor \<Rightarrow> real \<times> monitor \<times> event list" where
  "get_single_reading checkdist m =
     (case checkdist of
        Inr d \<Rightarrow> (d, m\<lparr>last_distance := d\<rparr>, [])
      | Inl e \<Rightarrow> (- 1, m, [Print ''Sensor reading error: '' e]))"

subsection \<open>round\<close>

text \<open>
  Python's \<open>round(x, ndigits)\<close>: the nearest multiple of \<open>10 ^ (- ndigits)\<close>, a tie going
  to the even one.
\<close>

definition round_half_even :: "real \<Rightarrow> int" where
  "round_half_even x =
     (let f = \<lfloor>x\<rfloor>; r = x - of_int f
      in if r < 1 / 2 then f
         else if 1 / 2 < r then f + 1
         else if even f then f
         else f + 1)"

definition round_ndigits :: "real \<Rightarrow> nat \<Rightarrow> real" where
  "round_ndigits x ndigits = of_int (round_half_even (x * 10 ^ ndigits)) / 10 ^ ndigits"

subsection \<open>run\<close>

text \<open>The guarded callback call inside the \<open>try\<close> block.\<close>

definition deliver ::
  "(sensor_data \<Rightarrow> exn option) option \<Rightarrow> real \<Rightarrow> real \<Rightarrow> event list \<times> exn option" where
  "deliver cb d now =
     (case cb of
        None \<Rightarrow> ([], None)
      | Some f \<Rightarrow>
          (if 0 \<le> d then
             (let data = \<lparr>dtype = ''ultrasonic'', distance = round_ndigits d 2,
                          timestamp = now\<rparr>
              in ([Callback data], f data))
           else ([], None)))"

text \<open>
  \<open>time.sleep(1.0 / self.update_rate)\<close>: the division raises on a zero rate and
  \<open>time.sleep\<close> raises \<open>ValueError\<close> on a negative length.
\<close>

definition rate_sleep :: "real \<Rightarrow> event list \<times> exn option" where
  "rate_sleep rate =
     (if rate = 0 then ([], Some ZeroDivisionError)
      else if 1 / rate < 0 then ([], Some ValueError)
      else ([Sleep (1 / rate)], None))"

text \<open>The \<open>try\<close> block of the loop body: it ends normally or with the exception raised.\<close>

definition try_block :: "exn + real \<Rightarrow> real \<Rightarrow> monitor \<Rightarrow> monitor \<times> event list \<times> exn option" where
  "try_block checkdist now m =
     (case get_single_reading checkdist m of
        (d, m1, out) \<Rightarrow>
          (case deliver (callback m1) d now of
             (evs, Some e) \<Rightarrow> (m1, out @ evs, Some e)
           | (evs, None) \<Rightarrow>
               (case rate_sleep (update_rate m1) of
                  (evs2, r) \<Rightarrow> (m1, out @ evs @ evs2, r))))"

text \<open>One pass through the body of the \<open>while\<close> loop.\<close>

definition run_body :: "exn + real \<Rightarrow> real \<Rightarrow> monitor \<Rightarrow> monitor \<times> event list" where
  "run_body checkdist now m =
     (if continuous m then
        (case try_block checkdist now m of
           (m1, evs, None) \<Rightarrow> (m1, evs)
         | (m1, evs, Some e) \<Rightarrow>
             (m1, evs @ [Print ''Ultrasonic monitor error: '' e, Sleep 1]))
      else (m, [Sleep (1 / 10)]))"

text \<open>
  The other threads act on the object through its methods. A \<open>call\<close> is one such method
  call; its return value goes to the caller, its effect on the object stays.
\<close>

datatype call =
    SetCallback "(sensor_data \<Rightarrow> exn option) option"
  | StartContinuous real
  | StopContinuous
  | GetSingleReading "exn + real"
  | Stop

fun apply_call :: "call \<Rightarrow> monitor \<Rightarrow> monitor" where
  "apply_call (SetCallback cb) m = set_callback cb m"
| "apply_call (StartContinuous rate) m = snd (start_continuous rate m)"
| "apply_call StopContinuous m = stop_continuous m"
| "apply_call (GetSingleReading checkdist) m = fst (snd (get_single_reading checkdist m))"
| "apply_call Stop m = stop m"

fun apply_calls :: "call list \<Rightarrow> monitor \<Rightarrow> monitor" where
  "apply_calls [] m = m"
| "apply_calls (c # cs) m = apply_calls cs (apply_call c m)"

text \<open>
  The loop of \<open>run\<close>. Each pass consumes one \<open>pass\<close> of the environment: what the sensor
  answers, what the clock shows, and the method calls the other threads make while the
  pass sleeps. The loop may never end, so the model runs it over a finite list of passes
  and says whether the loop had returned (\<open>True\<close>) or was still looping (\<open>False\<close>) when
  the list ran out, with the object and the events so far.
\<close>

record pass =
  checkdist :: "exn + real"
  clock :: real
  calls :: "call list"

fun run :: "pass list \<Rightarrow> monitor \<Rightarrow> bool \<times> monitor \<times> event list" where
  "run [] m = (\<not> (running m \<and> \<not> stop_event m), m, [])"
| "run (p # ps) m =
     (if running m \<and> \<not> stop_event m then
        (case run_body (checkdist p) (clock p) m of
           (m1, evs) \<Rightarrow>
             (case run ps (apply_calls (calls p) m1) of
                (returned, m2, evs2) \<Rightarrow> (returned, m2, evs @ evs2)))
      else (True, m, []))"


section \<open>Properties of the motor control\<close>

lemma clamp_speed_range: "0 \<le> clamp_speed s \<and> clamp_speed s \<le> 100"
  by (simp add: clamp_speed_def)

lemma Motor_bound:
  "Motor channel direction motor_speed (Some h) =
     Inr (Some (set_throttle channel
                  (if direction = - 1 then - (clamp_speed motor_speed / 100)
                   else clamp_speed motor_speed / 100)
                  (h\<lparr>frequency := FREQ\<rparr>)))"
  by (simp add: Motor_def map_linear_def)

lemma Motor_unbound: "Motor channel direction motor_speed None = Inl AttributeError"
  by (simp add: Motor_def map_linear_def)

lemma and_then_simps:
  "and_then (Inr st) f = f st" "and_then (Inl e) f = Inl e"
  by (simp_all add: and_then_def)

lemmas motor_consts =
  M1_Direction_def M2_Direction_def TL_LEFT_Offset_def TL_RIGHT_Offset_def

text \<open>
  Claim C1. Whatever the channel, the direction and the requested speed (any real
  number, so any integer, any speed plus an offset and any \<open>speed * radius\<close> product),
  \<open>Motor\<close> on a set-up driver writes to the addressed channel a throttle \<open>v\<close> with
  \<open>- 1 \<le> v \<le> 1\<close>, and changes nothing else but the re-asserted frequency.
\<close>

theorem Motor_throttle_in_range:
  "\<exists>v. - 1 \<le> v \<and> v \<le> 1 \<and>
       Motor channel direction motor_speed (Some h) =
         Inr (Some (set_throttle channel v (h\<lparr>frequency := FREQ\<rparr>)))"
proof -
  let ?v = "if direction = - 1 then - (clamp_speed motor_speed / 100)
            else clamp_speed motor_speed / 100"
  have "0 \<le> clamp_speed motor_speed" "clamp_speed motor_speed \<le> 100"
    using clamp_speed_range by simp_all
  then have "- 1 \<le> ?v \<and> ?v \<le> 1" by simp
  then show ?thesis using Motor_bound by blast
qed

text \<open>
  Claim C2. The claim gives the left channel (motor 2) the magnitude 0.60 and the right
  channel (motor 1) the magnitude 0.50. The source adds \<open>TL_LEFT_Offset\<close> to the speed
  of motor 1 and \<open>TL_RIGHT_Offset\<close> to the speed of motor 2: at
  \<open>trackingMove(50, 1, 'mid')\<close> motor 1 receives 0.60 and motor 2 receives 0.50.
\<close>

theorem trackingMove_straight_offsets:
  "trackingMove 50 1 ''mid'' (6 / 10) (Some h) =
     Inr (Some (h\<lparr>frequency := FREQ, motor1 := 6 / 10, motor2 := 5 / 10\<rparr>))"
  by (simp add: trackingMove_def Motor_bound and_then_simps set_throttle_def
      clamp_speed_def motor_consts)

text \<open>
  Claim C3. The claim has the inside channel of a forward turn written with throttle 0.
  The source calls \<open>Motor\<close> with direction 0 for that channel, and \<open>Motor\<close> negates the
  speed for direction \<open>- 1\<close> and leaves it as it is for every other direction: at
  \<open>trackingMove(50, 1, 'left')\<close> motor 2 receives 0.50 (and motor 1 receives - 0.60), at
  \<open>trackingMove(50, 1, 'right')\<close> motor 1 receives 0.50 (and motor 2 receives - 0.50).
\<close>

theorem trackingMove_turn_inside:
  "trackingMove 50 1 ''left'' (6 / 10) (Some h) =
     Inr (Some (h\<lparr>frequency := FREQ, motor1 := - (6 / 10), motor2 := 5 / 10\<rparr>)) \<and>
   trackingMove 50 1 ''right'' (6 / 10) (Some h) =
     Inr (Some (h\<lparr>frequency := FREQ, motor1 := 5 / 10, motor2 := - (5 / 10)\<rparr>))"
  by (simp add: trackingMove_def Motor_bound and_then_simps set_throttle_def
      clamp_speed_def motor_consts)

text \<open>
  With radius 1 a forward turn of \<open>video_Tracking_Move\<close> is the tank turn of \<open>move\<close>.
\<close>

lemma video_Tracking_Move_radius_one_is_tank_turn:
  "video_Tracking_Move speed 1 turn 1 st = move speed 1 turn radius st"
  by (simp add: video_Tracking_Move_def move_def)

text \<open>
  Claim C4. The claim has \<open>video_Tracking_Move\<close> with radius 1 write the throttles of
  \<open>move(speed, 1, 'mid')\<close>. The source passes the reversed direction for the channel it
  runs at full speed: at \<open>video_Tracking_Move(60, 1, 'left', 1.0)\<close> motor 1 receives
  - 0.60 and motor 2 receives 0.60, at \<open>video_Tracking_Move(60, 1, 'right', 1.0)\<close> motor 1
  receives 0.60 and motor 2 receives - 0.60, while \<open>move(60, 1, 'mid')\<close> writes 0.60 to
  both.
\<close>

theorem video_Tracking_Move_radius_one:
  "video_Tracking_Move 60 1 ''left'' 1 (Some h) =
     Inr (Some (h\<lparr>frequency := FREQ, motor1 := - (6 / 10), motor2 := 6 / 10\<rparr>)) \<and>
   video_Tracking_Move 60 1 ''right'' 1 (Some h) =
     Inr (Some (h\<lparr>frequency := FREQ, motor1 := 6 / 10, motor2 := - (6 / 10)\<rparr>)) \<and>
   move 60 1 ''mid'' (6 / 10) (Some h) =
     Inr (Some (h\<lparr>frequency := FREQ, motor1 := 6 / 10, motor2 := 6 / 10\<rparr>))"
  by (simp add: video_Tracking_Move_def move_def Motor_bound and_then_simps
      set_throttle_def clamp_speed_def motor_consts)

section \<open>Properties of the ultrasonic monitor\<close>

subsection \<open>Rounding\<close>


lemma round_half_even_nonneg: "0 \<le> x \<Longrightarrow> 0 \<le> round_half_even x"
  unfolding round_half_even_def Let_def by (auto; linarith)


lemma round_ndigits_nonneg: "0 \<le> x \<Longrightarrow> 0 \<le> round_ndigits x n"
  by (simp add: round_ndigits_def round_half_even_nonneg)

subsection \<open>A single reading\<close>

lemma get_single_reading_simps:
  "get_single_reading (Inl e) m = (- 1, m, [Print ''Sensor reading error: '' e])"
  "get_single_reading (Inr d) m = (d, m\<lparr>last_distance := d\<rparr>, [])"
  by (simp_all add: get_single_reading_def)

text \<open>
  Claim C6. \<open>get_single_reading\<close> returns a number in every case: when the sensor read
  raises, it prints the error, returns the sentinel \<open>- 1\<close> and leaves the object (so
  \<open>last_distance\<close>) as it was; when the read returns \<open>d\<close>, it stores \<open>d\<close> in
  \<open>last_distance\<close> and returns \<open>d\<close>.
\<close>

theorem get_single_reading_sentinel:
  "get_single_reading (Inl e) m = (- 1, m, [Print ''Sensor reading error: '' e]) \<and>
   get_single_reading (Inr d) m = (d, m\<lparr>last_distance := d\<rparr>, [])"
  by (simp add: get_single_reading_def)

subsection \<open>One pass of the loop\<close>

lemma rate_sleep_pos: "0 < rate \<Longrightarrow> rate_sleep rate = ([Sleep (1 / rate)], None)"
  by (simp add: rate_sleep_def)

lemma deliver_negative: "d < 0 \<Longrightarrow> deliver cb d now = ([], None)"
  by (simp add: deliver_def split: option.splits)

lemma start_continuous_first:
  "start_continuous rate UltrasonicMonitor_init =
     (None, UltrasonicMonitor_init\<lparr>update_rate := rate, continuous := True, running := True,
                                   threads_started := 1\<rparr>)"
  by (simp add: start_continuous_def Thread_start_def UltrasonicMonitor_init_def Let_def)

text \<open>
  Claim C5, as stated, fails: a failed read never reaches the \<open>except\<close> branch of \<open>run\<close>,
  because \<open>get_single_reading\<close> has caught it and returned \<open>- 1\<close>. On a monitor started
  with \<open>start_continuous(10)\<close> the pass with a failed read prints the error and sleeps
  0.1 seconds; it does not sleep 1 second.
\<close>

theorem run_body_failed_read_counterexample:
  "snd (run_body (Inl SensorReadError) 0 (snd (start_continuous 10 UltrasonicMonitor_init))) =
     [Print ''Sensor reading error: '' SensorReadError, Sleep (1 / 10)] \<and>
   Sleep 1 \<notin> set (snd (run_body (Inl SensorReadError) 0
                          (snd (start_continuous 10 UltrasonicMonitor_init))))"
  by (simp add: run_body_def try_block_def get_single_reading_simps deliver_negative
      rate_sleep_pos start_continuous_first)

text \<open>
  Claim C5, amended. In continuous mode with a positive rate, a pass whose sensor read
  fails prints the failure, does not call the callback, sleeps the normal
  \<open>1 / update_rate\<close> seconds and leaves the object unchanged.
\<close>

theorem run_body_failed_read:
  assumes "continuous m" and "0 < update_rate m"
  shows "run_body (Inl e) now m =
           (m, [Print ''Sensor reading error: '' e, Sleep (1 / update_rate m)])"
  using assms
  by (simp add: run_body_def try_block_def get_single_reading_simps deliver_negative
      rate_sleep_pos)

theorem run_body_failed_read_witness:
  "continuous (snd (start_continuous 5 UltrasonicMonitor_init)) \<and>
   0 < update_rate (snd (start_continuous 5 UltrasonicMonitor_init)) \<and>
   snd (run_body (Inl SensorReadError) 0 (snd (start_continuous 5 UltrasonicMonitor_init))) =
     [Print ''Sensor reading error: '' SensorReadError, Sleep (1 / 5)]"
  using run_body_failed_read
    [of "snd (start_continuous 5 UltrasonicMonitor_init)" SensorReadError 0]
  by (simp add: start_continuous_first)

text \<open>
  The 1-second sleep belongs to the exceptions that do escape the \<open>try\<close> block: a
  callback that raises, a zero rate.
\<close>

lemma run_body_callback_raises:
  assumes "continuous m" and "callback m = Some f" and "0 \<le> d"
    and "f \<lparr>dtype = ''ultrasonic'', distance = round_ndigits d 2, timestamp = now\<rparr> = Some e"
  shows "run_body (Inr d) now m =
           (m\<lparr>last_distance := d\<rparr>,
            [Callback \<lparr>dtype = ''ultrasonic'', distance = round_ndigits d 2, timestamp = now\<rparr>,
             Print ''Ultrasonic monitor error: '' e, Sleep 1])"
  using assms
  by (simp add: run_body_def try_block_def get_single_reading_simps deliver_def)

lemma run_body_zero_rate:
  assumes "continuous m" and "update_rate m = 0"
  shows "run_body (Inl e) now m =
           (m, [Print ''Sensor reading error: '' e,
                Print ''Ultrasonic monitor error: '' ZeroDivisionError, Sleep 1])"
  using assms
  by (simp add: run_body_def try_block_def get_single_reading_simps deliver_negative
      rate_sleep_def)

subsection \<open>What the callback receives\<close>

lemma deliver_Callback:
  "Callback data \<in> set (fst (deliver cb d now)) \<Longrightarrow>
     0 \<le> d \<and> cb \<noteq> None \<and>
     data = \<lparr>dtype = ''ultrasonic'', distance = round_ndigits d 2, timestamp = now\<rparr>"
  by (auto simp: deliver_def Let_def split: option.splits if_splits)

lemma rate_sleep_no_Callback: "Callback data \<notin> set (fst (rate_sleep rate))"
  by (simp add: rate_sleep_def)

lemma try_block_Callback:
  "Callback data \<in> set (fst (snd (try_block cd now m))) \<Longrightarrow>
     (\<exists>d. cd = Inr d \<and> 0 \<le> d \<and>
        data = \<lparr>dtype = ''ultrasonic'', distance = round_ndigits d 2, timestamp = now\<rparr>)"
proof (cases cd)
  case (Inl e)
  assume "Callback data \<in> set (fst (snd (try_block cd now m)))"
  with Inl show ?thesis
    using rate_sleep_no_Callback [of data "update_rate m"]
    by (auto simp: try_block_def get_single_reading_simps deliver_negative
        split: prod.splits option.splits)
next
  case (Inr d)
  assume "Callback data \<in> set (fst (snd (try_block cd now m)))"
  with Inr show ?thesis
    using rate_sleep_no_Callback [of data "update_rate m"]
      deliver_Callback [of data "callback m" d now]
    by (auto simp: try_block_def get_single_reading_simps
        split: prod.splits option.splits)
qed

lemma run_body_Callback:
  assumes "Callback data \<in> set (snd (run_body cd now m))"
  shows "\<exists>d. cd = Inr d \<and> 0 \<le> d \<and>
        data = \<lparr>dtype = ''ultrasonic'', distance = round_ndigits d 2, timestamp = now\<rparr>"
proof -
  from assms have "Callback data \<in> set (fst (snd (try_block cd now m)))"
    by (auto simp: run_body_def split: if_splits prod.splits option.splits)
  then show ?thesis by (rule try_block_Callback)
qed




subsection \<open>The whole loop\<close>

lemma run_Callback:
  "Callback data \<in> set (snd (snd (run ps m))) \<Longrightarrow> 0 \<le> distance data"
proof (induction ps arbitrary: m)
  case Nil
  then show ?case by simp
next
  case (Cons p ps)
  show ?case
  proof (cases "running m \<and> \<not> stop_event m")
    case False
    with Cons.prems show ?thesis by simp
  next
    case True
    obtain m1 evs where b: "run_body (checkdist p) (clock p) m = (m1, evs)"
      by (cases "run_body (checkdist p) (clock p) m")
    obtain r m2 evs2 where l: "run ps (apply_calls (calls p) m1) = (r, m2, evs2)"
      by (cases "run ps (apply_calls (calls p) m1)")
    from Cons.prems True b l have "Callback data \<in> set evs \<or> Callback data \<in> set evs2"
      by auto
    then show ?thesis
    proof
      assume "Callback data \<in> set evs"
      then have "Callback data \<in> set (snd (run_body (checkdist p) (clock p) m))"
        by (simp add: b)
      from run_body_Callback [OF this] show ?thesis
        by (auto simp: round_ndigits_nonneg)
    next
      assume "Callback data \<in> set evs2"
      then have "Callback data \<in> set (snd (snd (run ps (apply_calls (calls p) m1))))"
        by (simp add: l)
      then show ?thesis by (rule Cons.IH)
    qed
  qed
qed

text \<open>
  Claim C10. In a pass the callback is called only if the read did not fail and the
  distance obtained is at least 0; and over any run of the loop, from any state of the
  object and whatever the other threads call in between, every distance the callback
  receives is at least 0, so it is never the sentinel \<open>- 1\<close>.
\<close>

theorem callback_only_nonnegative:
  "(Callback data \<in> set (snd (run_body cd now m)) \<longrightarrow>
      0 \<le> fst (get_single_reading cd m) \<and> cd \<noteq> Inl e) \<and>
   (Callback data \<in> set (snd (snd (run ps m))) \<longrightarrow>
      0 \<le> distance data \<and> distance data \<noteq> - 1)"
proof (intro conjI impI)
  assume a: "Callback data \<in> set (snd (run_body cd now m))"
  from run_body_Callback [OF a] obtain d where "cd = Inr d" "0 \<le> d" by blast
  then show "0 \<le> fst (get_single_reading cd m)" "cd \<noteq> Inl e"
    by (simp_all add: get_single_reading_simps)
next
  assume "Callback data \<in> set (snd (snd (run ps m)))"
  then have "0 \<le> distance data" by (rule run_Callback)
  then show "0 \<le> distance data" "distance data \<noteq> - 1" by simp_all
qed

theorem callback_only_nonnegative_witness:
  "Callback \<lparr>dtype = ''ultrasonic'', distance = 30, timestamp = 2\<rparr>
     \<in> set (snd (run_body (Inr 30) 2
          (snd (start_continuous 5
             (set_callback (Some (\<lambda>data. None)) UltrasonicMonitor_init))))) \<and>
   Callback \<lparr>dtype = ''ultrasonic'', distance = 30, timestamp = 2\<rparr>
     \<in> set (snd (snd (run [\<lparr>checkdist = Inl SensorReadError, clock = 1, calls = []\<rparr>,
                           \<lparr>checkdist = Inr 30, clock = 2, calls = [Stop]\<rparr>]
          (snd (start_continuous 5
             (set_callback (Some (\<lambda>data. None)) UltrasonicMonitor_init)))))) \<and>
   (0::real) \<le> fst (get_single_reading (Inr 30)
          (snd (start_continuous 5
             (set_callback (Some (\<lambda>data. None)) UltrasonicMonitor_init))))"
proof -
  let ?m = "snd (start_continuous 5 (set_callback (Some (\<lambda>data. None)) UltrasonicMonitor_init))"
  let ?data = "\<lparr>dtype = ''ultrasonic'', distance = 30, timestamp = 2\<rparr>"
  let ?ps = "[\<lparr>checkdist = Inl SensorReadError, clock = 1, calls = []\<rparr>,
              \<lparr>checkdist = Inr 30, clock = 2, calls = [Stop]\<rparr>]"
  have r: "round_ndigits 30 2 = 30"
    by (simp add: round_ndigits_def round_half_even_def Let_def)
  have m: "?m = UltrasonicMonitor_init\<lparr>callback := Some (\<lambda>data. None), update_rate := 5,
             continuous := True, running := True, threads_started := 1\<rparr>"
    by (simp add: start_continuous_def Thread_start_def set_callback_def
        UltrasonicMonitor_init_def Let_def)
  have b: "snd (run_body (Inr 30) 2 ?m) = [Callback ?data, Sleep (1 / 5)]"
    unfolding m
    by (simp add: run_body_def try_block_def get_single_reading_simps deliver_def r
        rate_sleep_pos UltrasonicMonitor_init_def)
  have l: "snd (snd (run ?ps ?m)) =
             [Print ''Sensor reading error: '' SensorReadError, Sleep (1 / 5),
              Callback ?data, Sleep (1 / 5)]"
    unfolding m
    by (simp add: run_body_def try_block_def get_single_reading_simps deliver_def r
        rate_sleep_pos UltrasonicMonitor_init_def stop_def)
  from callback_only_nonnegative [of ?data "Inr 30" 2 ?m SensorReadError ?ps] b l
  show ?thesis by simp
qed

text \<open>
  Claim C8. Called on a monitor whose \<open>running\<close> flag is set, \<open>start_continuous\<close>
  returns normally and changes only the rate and the \<open>continuous\<close> flag: the thread count
  stays. From a new monitor the first call starts the one thread, and a second call
  leaves that count at one and only updates the rate.
\<close>

theorem start_continuous_idempotent:
  "(running m \<longrightarrow>
      start_continuous rate m = (None, m\<lparr>update_rate := rate, continuous := True\<rparr>)) \<and>
   start_continuous r1 UltrasonicMonitor_init =
     (None, UltrasonicMonitor_init\<lparr>update_rate := r1, continuous := True, running := True,
                                   threads_started := 1\<rparr>) \<and>
   start_continuous r2 (snd (start_continuous r1 UltrasonicMonitor_init)) =
     (None, UltrasonicMonitor_init\<lparr>update_rate := r2, continuous := True, running := True,
                                   threads_started := 1\<rparr>)"
  by (simp add: start_continuous_def Thread_start_def UltrasonicMonitor_init_def Let_def)

theorem start_continuous_idempotent_witness:
  "running (snd (start_continuous 5 UltrasonicMonitor_init)) \<and>
   start_continuous 5 (snd (start_continuous 5 UltrasonicMonitor_init)) =
     (None, UltrasonicMonitor_init\<lparr>update_rate := 5, continuous := True, running := True,
                                   threads_started := 1\<rparr>)"
  using start_continuous_idempotent [of "snd (start_continuous 5 UltrasonicMonitor_init)" 5 5 5]
  by (simp add: start_continuous_first)

subsection \<open>After stop\<close>
















end
